theory Spec2Isabelle
  imports Complex_Main "HOL-Library.Multiset" "HOL-Library.Product_Lexorder"
begin

section \<open>The slicer (slice-gexf)\<close>

text \<open>
  Numbers of the JavaScript source are IEEE doubles. The model writes a number as
  the \<^typ>\<open>real\<close> it denotes and never rounds: wherever the source adds or
  multiplies, the model first tests that the exact result is the one the double
  operation returns, and otherwise stops with the failure \<open>Rounded\<close>. Comparisons,
  \<^verbatim>\<open>Math.min\<close> and \<^verbatim>\<open>Math.max\<close> are exact on all doubles.

  An attribute read with \<^verbatim>\<open>getAttribute\<close> is a string that is empty (falsy) when
  the attribute is missing; the model keeps the number that \<^verbatim>\<open>timeParser\<close> gives to
  a non-empty attribute and \<open>None\<close> for a missing or empty one. A command-line
  option is likewise \<open>None\<close> when it is absent and \<open>Some v\<close>, with \<open>v\<close> the number
  \<^verbatim>\<open>+options.name\<close>, when it is given.
\<close>

datatype failure = Rounded | TypeError

text \<open>
  An integer of magnitude at most \<open>2\<^sup>5\<^sup>3\<close> is a double. A sum or a product of doubles
  is exact when one operand is neutral or absorbing, and when operands and exact
  result are such integers: the operation is correctly rounded, so it returns the
  exact result whenever that is a double.
\<close>

definition integer53 :: "real \<Rightarrow> bool" where
  "integer53 v = (v = of_int \<lfloor>v\<rfloor> \<and> \<bar>v\<bar> \<le> 2 ^ 53)"

definition exactSum :: "real \<Rightarrow> real \<Rightarrow> bool" where
  "exactSum a b = (a = 0 \<or> b = 0 \<or> (integer53 a \<and> integer53 b \<and> integer53 (a + b)))"

definition exactProduct :: "real \<Rightarrow> real \<Rightarrow> bool" where
  "exactProduct a b =
     (a = 0 \<or> b = 0 \<or> a = 1 \<or> b = 1 \<or> (integer53 a \<and> integer53 b \<and> integer53 (a * b)))"

datatype timeformat = TFDate | TFDateTime | TFInteger | TFDouble

datatype timerepresentation = Interval | Timestamp

record options =
  opt_range :: "real option"
  opt_step :: "real option"

subsection \<open>Window defaults\<close>

definition windowRangeDefault :: "timeformat \<Rightarrow> real" where
  "windowRangeDefault tf =
     (if tf = TFDate \<or> tf = TFDateTime then 7 * 24 * 60 * 60 else 1)"

text \<open>The literal \<^verbatim>\<open>0.1\<close> is the double \<open>3602879701896397 / 2\<^sup>5\<^sup>5\<close>.\<close>

definition windowStepDefault :: "timeformat \<Rightarrow> real" where
  "windowStepDefault tf =
     (if tf = TFDate \<or> tf = TFDateTime then 24 * 60 * 60
      else 3602879701896397 / 36028797018963968)"

definition windowUnitRatio :: "timeformat \<Rightarrow> real" where
  "windowUnitRatio tf = (if tf = TFDate \<or> tf = TFDateTime then 1000 else 1)"

definition windowRange :: "options \<Rightarrow> timeformat \<Rightarrow> real" where
  "windowRange opts tf =
     (case opt_range opts of Some r \<Rightarrow> r | None \<Rightarrow> windowRangeDefault tf)
       * windowUnitRatio tf"

text \<open>The source reads \<^verbatim>\<open>options.range\<close> here too; \<^verbatim>\<open>options.step\<close> is never read.\<close>

definition windowStep :: "options \<Rightarrow> timeformat \<Rightarrow> real" where
  "windowStep opts tf =
     (case opt_range opts of Some r \<Rightarrow> r | None \<Rightarrow> windowStepDefault tf)
       * windowUnitRatio tf"

text \<open>The two products above are the ones the doubles give.\<close>

definition windowsExact :: "options \<Rightarrow> timeformat \<Rightarrow> bool" where
  "windowsExact opts tf =
     (exactProduct (case opt_range opts of Some r \<Rightarrow> r | None \<Rightarrow> windowRangeDefault tf)
        (windowUnitRatio tf)
      \<and> exactProduct (case opt_range opts of Some r \<Rightarrow> r | None \<Rightarrow> windowStepDefault tf)
        (windowUnitRatio tf))"

subsection \<open>DOM nodes and slices\<close>

record domnode =
  attr_start :: "real option"
  attr_end :: "real option"
  attr_timestamp :: "real option"

record nodeDomnode = domnode +
  attr_id :: string
  attr_label :: string
  spells :: "domnode list"

record slice =
  slice_start :: real
  slice_end :: real
  slice_nodes :: "(string \<times> string) list"
  slice_edges :: "(string \<times> string) list"

subsection \<open>The date envelope\<close>






subsection \<open>Building the empty slices\<close>

definition emptySlice :: "real \<Rightarrow> real \<Rightarrow> slice" where
  "emptySlice i wRange =
     \<lparr>slice_start = i, slice_end = i + wRange, slice_nodes = [], slice_edges = []\<rparr>"

text \<open>
  The \<^verbatim>\<open>for (let i = dateMin; i<=dateMax-windowRange; i+=windowStep)\<close> loop. It may
  run forever, which is the value \<open>None\<close>. The difference \<^verbatim>\<open>dateMax-windowRange\<close>,
  the sum \<^verbatim>\<open>i+windowRange\<close> of the slice and the sum \<^verbatim>\<open>i+windowStep\<close> are the
  three operations that round.
\<close>

partial_function (option) slicesLoop ::
  "real \<Rightarrow> real \<Rightarrow> real \<Rightarrow> real \<Rightarrow> slice list \<Rightarrow> (failure + slice list) option" where
  "slicesLoop i dateMax wRange wStep slices =
     (if \<not> exactSum dateMax (- wRange) then Some (Inl Rounded)
      else if i \<le> dateMax - wRange
      then (if exactSum i wRange \<and> exactSum i wStep
            then slicesLoop (i + wStep) dateMax wRange wStep (slices @ [emptySlice i wRange])
            else Some (Inl Rounded))
      else Some (Inr slices))"

text \<open>
  With no date the loop starts at \<^verbatim>\<open>Infinity\<close> against \<^verbatim>\<open>-Infinity\<close>: its condition is
  false at once and no slice is built.
\<close>

definition buildSlices ::
  "options \<Rightarrow> timeformat \<Rightarrow> (real \<times> real) option \<Rightarrow> (failure + slice list) option" where
  "buildSlices opts tf envelope =
     (case envelope of
        None \<Rightarrow> Some (Inr [])
      | Some (dateMin, dateMax) \<Rightarrow>
          if windowsExact opts tf
          then slicesLoop dateMin dateMax (windowRange opts tf) (windowStep opts tf) []
          else Some (Inl Rounded))"


text \<open>The \<open>k\<close>-th snapshot of the specification: it starts at \<open>dateMin + k * step\<close>.\<close>

definition snapshot :: "real \<Rightarrow> real \<Rightarrow> real \<Rightarrow> nat \<Rightarrow> slice" where
  "snapshot dateMin wRange wStep k = emptySlice (dateMin + real k * wStep) wRange"


subsection \<open>Membership of a node in a slice\<close>

text \<open>
  \<^verbatim>\<open>overlapDomnodeSlice\<close> and \<^verbatim>\<open>checkNodeSlice\<close> return \<^verbatim>\<open>true\<close>, \<^verbatim>\<open>false\<close> or,
  when they fall off their end, \<^verbatim>\<open>undefined\<close> (here \<open>None\<close>); the caller tests the
  result for truthiness.
\<close>

definition truthy :: "bool option \<Rightarrow> bool" where
  "truthy r = (r = Some True)"

definition overlapDomnodeSlice ::
  "timerepresentation \<Rightarrow> 'a domnode_scheme \<Rightarrow> slice \<Rightarrow> bool option" where
  "overlapDomnodeSlice tr domnode sl =
     (case tr of
        Interval \<Rightarrow>
          (if attr_start domnode \<noteq> None \<or> attr_end domnode \<noteq> None
           then Some (\<not> ((case attr_end domnode of
                              Some endDate \<Rightarrow> endDate < slice_start sl
                            | None \<Rightarrow> False)
                         \<or> (case attr_start domnode of
                              Some startDate \<Rightarrow> slice_end sl < startDate
                            | None \<Rightarrow> False)))
           else None)
      | Timestamp \<Rightarrow>
          (case attr_timestamp domnode of
             Some tsDate \<Rightarrow> Some (slice_start sl \<le> tsDate \<and> tsDate < slice_end sl)
           | None \<Rightarrow> Some False))"

fun checkSpells :: "timerepresentation \<Rightarrow> domnode list \<Rightarrow> slice \<Rightarrow> bool option" where
  "checkSpells tr [] sl = None"
| "checkSpells tr (spellDomnode # rest) sl =
     (if truthy (overlapDomnodeSlice tr spellDomnode sl) then Some True
      else checkSpells tr rest sl)"

definition checkNodeSlice ::
  "timerepresentation \<Rightarrow> nodeDomnode \<Rightarrow> slice \<Rightarrow> bool option" where
  "checkNodeSlice tr nodeDomnode sl =
     (case tr of
        Interval \<Rightarrow>
          (if attr_start nodeDomnode \<noteq> None \<or> attr_end nodeDomnode \<noteq> None
           then overlapDomnodeSlice tr nodeDomnode sl
           else checkSpells tr (spells nodeDomnode) sl)
      | Timestamp \<Rightarrow>
          (if attr_timestamp nodeDomnode \<noteq> None
           then overlapDomnodeSlice tr nodeDomnode sl
           else checkSpells tr (spells nodeDomnode) sl))"

text \<open>
  The membership rule in the words of the specification: an interval overlaps the
  slice unless it ends before the slice starts or starts after the slice ends, a
  missing bound being infinite; an element is active when its own interval or one
  of its spells' intervals overlaps.
\<close>

definition hasInterval :: "'a domnode_scheme \<Rightarrow> bool" where
  "hasInterval d = (attr_start d \<noteq> None \<or> attr_end d \<noteq> None)"

definition intervalOverlaps :: "'a domnode_scheme \<Rightarrow> slice \<Rightarrow> bool" where
  "intervalOverlaps d sl =
     (\<not> ((case attr_end d of None \<Rightarrow> False | Some endDate \<Rightarrow> endDate < slice_start sl)
        \<or> (case attr_start d of None \<Rightarrow> False
            | Some startDate \<Rightarrow> slice_end sl < startDate)))"

definition activeSpec :: "nodeDomnode \<Rightarrow> slice \<Rightarrow> bool" where
  "activeSpec n sl =
     ((hasInterval n \<and> intervalOverlaps n sl)
      \<or> (\<exists>sp \<in> set (spells n). hasInterval sp \<and> intervalOverlaps sp sl))"


section \<open>The graph model\<close>

text \<open>
  Modelled from the spec: the graph model (\<^verbatim>\<open>graphology\<close> in the source, whose code
  is not part of the repository), after section 4.1 of the specification: a mixed
  multigraph with its nodes in insertion order, one attribute bag a node, and
  edges that carry their directedness. A coordinate is \<open>None\<close> when it is
  undefined, null or not a number. The size is \<open>None\<close> when it is undefined, and
  otherwise a number of the type \<open>'n\<close> in which the arithmetic of node sizing is
  carried out (see below).
\<close>

record 'n nodeAttributes =
  node_label :: string
  node_x :: "real option"
  node_y :: "real option"
  node_size :: "'n option"

record edge =
  edge_source :: string
  edge_target :: string
  edge_undirected :: bool

record 'n graph =
  g_nodes :: "(string \<times> 'n nodeAttributes) list"
  g_edges :: "edge list"

text \<open>Modelled from the spec: \<^verbatim>\<open>order\<close> of the graph model is the node count.\<close>

definition order :: "'n graph \<Rightarrow> nat" where
  "order g = length (g_nodes g)"

text \<open>
  Modelled from the spec: \<^verbatim>\<open>getNodeAttributes\<close> of the graph model gives the
  attribute bag of a node identifier.
\<close>

definition getNodeAttributes :: "'n graph \<Rightarrow> string \<Rightarrow> 'n nodeAttributes option" where
  "getNodeAttributes g nid = map_of (g_nodes g) nid"


text \<open>
  Modelled from the spec: \<^verbatim>\<open>forEachNeighbor\<close> of the graph model visits every node
  joined to \<open>nid\<close> by an edge, once.
\<close>

definition neighbors :: "'n graph \<Rightarrow> string \<Rightarrow> string list" where
  "neighbors g nid =
     remdups (concat (map (\<lambda>e. if edge_source e = nid then [edge_target e]
                                 else if edge_target e = nid then [edge_source e]
                                 else []) (g_edges g)))"

section \<open>The temporal layout (layout-slices)\<close>



subsection \<open>Sampling one slice\<close>

text \<open>
  The sample option, written as a decimal integer. The check is
  \<^verbatim>\<open>options.sample < 0 || options.sample > data.slices.length\<close>; the index
  expression \<^verbatim>\<open>data.slices[options.sample]\<close> is \<^verbatim>\<open>undefined\<close> (here \<open>None\<close>) outside
  the array. The renderer (render-video.js, lines 36 to 44) has the same two lines.
\<close>

definition sampleOutOfRange :: "int \<Rightarrow> 'a list \<Rightarrow> bool" where
  "sampleOutOfRange sample slices = (sample < 0 \<or> sample > int (length slices))"

definition sampledSlice :: "int \<Rightarrow> 'a list \<Rightarrow> 'a option" where
  "sampledSlice sample slices =
     (if 0 \<le> sample \<and> sample < int (length slices) then Some (slices ! nat sample)
      else None)"

subsection \<open>Node sizes\<close>






subsection \<open>Initial positions\<close>

text \<open>A number attribute is truthy when it is defined, a number and not zero.\<close>

definition truthyNum :: "real option \<Rightarrow> bool" where
  "truthyNum v = (case v of None \<Rightarrow> False | Some r \<Rightarrow> r \<noteq> 0)"

text \<open>The callback of \<^verbatim>\<open>forEachNeighbor\<close>: it adds a positioned neighbour to the sums.\<close>

definition addNeighbor ::
  "'n graph \<Rightarrow> string \<Rightarrow> real \<times> real \<times> nat \<Rightarrow> real \<times> real \<times> nat" where
  "addNeighbor g n2id acc =
     (case acc of (x, y, cnt) \<Rightarrow>
        (case getNodeAttributes g n2id of
           None \<Rightarrow> (x, y, cnt)
         | Some n2 \<Rightarrow>
             (case (node_x n2, node_y n2) of
                (Some n2x, Some n2y) \<Rightarrow>
                  if n2x \<noteq> 0 \<and> n2y \<noteq> 0 then (x + n2x, y + n2y, cnt + 1)
                  else (x, y, cnt)
              | _ \<Rightarrow> (x, y, cnt))))"

text \<open>
  The position computed for a node without coordinates. \<^verbatim>\<open>Math.random\<close> is a
  stream \<open>rnd\<close> of numbers of \<open>[0, 1)\<close>, read at the counter \<open>k\<close>.
\<close>

definition newPosition ::
  "'n graph \<Rightarrow> (nat \<Rightarrow> real) \<Rightarrow> nat \<Rightarrow> string \<Rightarrow> (real \<times> real) \<times> nat" where
  "newPosition g rnd k nid =
     (let spreading = sqrt (real (order g)) * 100 in
      case fold (addNeighbor g) (neighbors g nid) (0, 0, 0) of (x, y, cnt) \<Rightarrow>
        if cnt = 0
        then (((rnd k - 1 / 2) * spreading, (rnd (k + 1) - 1 / 2) * spreading), k + 2)
        else ((x, y), k))"

text \<open>The first loop of the non-sample branch fills \<^verbatim>\<open>nodesIndex\<close>.\<close>

definition indexNode ::
  "'n graph \<Rightarrow> (nat \<Rightarrow> real) \<Rightarrow> string \<times> 'n nodeAttributes
     \<Rightarrow> (string \<times> real \<times> real) list \<times> nat \<Rightarrow> (string \<times> real \<times> real) list \<times> nat" where
  "indexNode g rnd node st =
     (case (node, st) of ((nid, n), (nodesIndex, k)) \<Rightarrow>
        if \<not> truthyNum (node_x n) \<or> \<not> truthyNum (node_y n)
        then (case newPosition g rnd k nid of (pos, k') \<Rightarrow> (nodesIndex @ [(nid, pos)], k'))
        else (nodesIndex, k))"

definition nodesIndexOf :: "'n graph \<Rightarrow> (nat \<Rightarrow> real) \<Rightarrow> (string \<times> real \<times> real) list" where
  "nodesIndexOf g rnd = fst (fold (indexNode g rnd) (g_nodes g) ([], 0))"

text \<open>The second loop writes the indexed positions into the graph.\<close>

definition initialPositions :: "'n graph \<Rightarrow> (nat \<Rightarrow> real) \<Rightarrow> 'n graph" where
  "initialPositions g rnd =
     g\<lparr>g_nodes := map (\<lambda>(nid, n).
          case map_of (nodesIndexOf g rnd) nid of
            None \<Rightarrow> (nid, n)
          | Some (x, y) \<Rightarrow> (nid, n\<lparr>node_x := Some x, node_y := Some y\<rparr>))
        (g_nodes g)\<rparr>"

section \<open>The rasterizer (render-video)\<close>

subsection \<open>Hillshading\<close>

text \<open>
  The heat map is a \<^verbatim>\<open>Float64Array\<close> of \<open>(width + 1) * (height + 1)\<close> numbers. A
  read outside a typed array is \<^verbatim>\<open>undefined\<close>, and a difference with
  \<^verbatim>\<open>undefined\<close> is \<^verbatim>\<open>NaN\<close>; both are \<open>None\<close> here.
\<close>

definition i_left :: "int \<Rightarrow> int \<Rightarrow> int" where
  "i_left width i = (if i mod (width + 1) = 0 then i else i - 1)"

definition i_right :: "int \<Rightarrow> int \<Rightarrow> int" where
  "i_right width i = (if i mod (width + 1) = (width + 1) - 1 then i else i + 1)"

definition i_top :: "int \<Rightarrow> int \<Rightarrow> int" where
  "i_top width i = (if i < width + 1 then i else i - (width + 1))"

definition i_bottom :: "int \<Rightarrow> int \<Rightarrow> int \<Rightarrow> int" where
  "i_bottom width height i =
     (if i > (width + 1) * ((height + 1) - 1) then i else i + (width + 1))"

definition arrayGet :: "real list \<Rightarrow> int \<Rightarrow> real option" where
  "arrayGet xs i = (if 0 \<le> i \<and> i < int (length xs) then Some (xs ! nat i) else None)"

definition minus_js :: "real option \<Rightarrow> real option \<Rightarrow> real option" where
  "minus_js a b = (case (a, b) of (Some u, Some v) \<Rightarrow> Some (u - v) | _ \<Rightarrow> None)"

definition hillshading_dx :: "real list \<Rightarrow> int \<Rightarrow> int \<Rightarrow> real option" where
  "hillshading_dx hPixelMap width i =
     minus_js (arrayGet hPixelMap (i_left width i)) (arrayGet hPixelMap (i_right width i))"

definition hillshading_dy :: "real list \<Rightarrow> int \<Rightarrow> int \<Rightarrow> int \<Rightarrow> real option" where
  "hillshading_dy hPixelMap width height i =
     minus_js (arrayGet hPixelMap (i_top width i))
       (arrayGet hPixelMap (i_bottom width height i))"

definition inBounds :: "int \<Rightarrow> int \<Rightarrow> int \<Rightarrow> bool" where
  "inBounds width height i = (0 \<le> i \<and> i < (width + 1) * (height + 1))"

subsection \<open>Nodes of the rendered graph\<close>

text \<open>
  When a frame is rendered every node has a position and a size (missing ones were
  given defaults); \<^verbatim>\<open>vid\<close> is the attribute that the Voronoi pass writes.
\<close>

record rnode =
  rn_id :: string
  rn_label :: string
  rn_x :: real
  rn_y :: real
  rn_size :: real
  rn_vid :: nat

subsection \<open>Voronoi field\<close>

text \<open>
  The reduced \<^verbatim>\<open>width\<close> and \<^verbatim>\<open>height\<close> of the field, its \<^verbatim>\<open>ratio\<close>, and
  \<^verbatim>\<open>options.voronoi_range\<close>.
\<close>

record voronoiParams =
  vp_width :: int
  vp_height :: int
  vp_ratio :: real
  vp_range :: real

record voronoiData =
  vidPixelMap :: "nat list"
  dPixelMap :: "nat list"

text \<open>
  \<^verbatim>\<open>nodesIndex\<close> is the node list with \<^verbatim>\<open>null\<close> in front; the \<^verbatim>\<open>forEach\<close> over it
  writes the index \<open>vid\<close> of every entry with \<open>vid > 0\<close> into that node.
\<close>

definition nodesIndex :: "rnode list \<Rightarrow> rnode option list" where
  "nodesIndex nodes = None # map Some nodes"



definition nodeRange :: "voronoiParams \<Rightarrow> rnode \<Rightarrow> real" where
  "nodeRange p n = vp_ratio p * rn_size n + vp_range p * vp_ratio p"

definition pixelDistance :: "voronoiParams \<Rightarrow> rnode \<Rightarrow> int \<Rightarrow> int \<Rightarrow> real" where
  "pixelDistance p n x y =
     sqrt ((vp_ratio p * rn_x n - real_of_int x)\<^sup>2 + (vp_ratio p * rn_y n - real_of_int y)\<^sup>2)"

definition modifiedDistance :: "voronoiParams \<Rightarrow> rnode \<Rightarrow> int \<Rightarrow> int \<Rightarrow> real" where
  "modifiedDistance p n x y =
     (if pixelDistance p n x y \<le> vp_ratio p * rn_size n then 0
      else (pixelDistance p n x y - vp_ratio p * rn_size n) / (vp_range p * vp_ratio p))"

definition pixelIndex :: "voronoiParams \<Rightarrow> int \<Rightarrow> int \<Rightarrow> nat" where
  "pixelIndex p x y = nat (x + (vp_width p + 1) * y)"

text \<open>
  The body of the two pixel loops. A store into a typed array keeps the value
  modulo the width of its elements; an index outside the array reads
  \<^verbatim>\<open>undefined\<close>, which fails both tests, so nothing is written.
\<close>

definition paintPixel ::
  "voronoiParams \<Rightarrow> nat \<Rightarrow> rnode \<Rightarrow> int \<Rightarrow> int \<Rightarrow> voronoiData \<Rightarrow> voronoiData" where
  "paintPixel p bits n x y vd =
     (if pixelDistance p n x y < nodeRange p n
      then (let dmod = modifiedDistance p n x y;
                i = pixelIndex p x y;
                written = \<lparr>vidPixelMap = (vidPixelMap vd)[i := rn_vid n mod 2 ^ bits],
                           dPixelMap = (dPixelMap vd)[i := nat \<lfloor>dmod * 255\<rfloor> mod 256]\<rparr>
            in if i < length (vidPixelMap vd) \<and> i < length (dPixelMap vd)
               then (if vidPixelMap vd ! i = 0 then written
                     else if dmod * 255 < real (dPixelMap vd ! i) then written
                     else vd)
               else vd)
      else vd)"

definition xRange :: "voronoiParams \<Rightarrow> rnode \<Rightarrow> int list" where
  "xRange p n =
     [max 0 \<lfloor>vp_ratio p * rn_x n - nodeRange p n\<rfloor> ..
      min (vp_width p) \<lfloor>vp_ratio p * rn_x n + nodeRange p n\<rfloor>]"

definition yRange :: "voronoiParams \<Rightarrow> rnode \<Rightarrow> int list" where
  "yRange p n =
     [max 0 \<lfloor>vp_ratio p * rn_y n - nodeRange p n\<rfloor> ..
      min (vp_height p) \<lfloor>vp_ratio p * rn_y n + nodeRange p n\<rfloor>]"

definition paintNode :: "voronoiParams \<Rightarrow> nat \<Rightarrow> rnode \<Rightarrow> voronoiData \<Rightarrow> voronoiData" where
  "paintNode p bits n vd =
     fold (\<lambda>x. fold (\<lambda>y. paintPixel p bits n x y) (yRange p n)) (xRange p n) vd"




subsection \<open>Label selection\<close>

text \<open>The comparator of \<^verbatim>\<open>getNodesBySize\<close>.\<close>

definition compareNodes :: "rnode \<Rightarrow> rnode \<Rightarrow> int" where
  "compareNodes na nb =
     (if rn_size na < rn_size nb then 1
      else if rn_size na > rn_size nb then - 1
      else if rn_x na < rn_x nb then 1
      else if rn_x na > rn_x nb then - 1
      else 0)"

text \<open>
  \<^verbatim>\<open>Array.prototype.sort\<close> with a comparator is a stable sort: elements that
  compare equal keep their input order. It is modelled as insertion from the right.
\<close>

fun insertBy :: "('a \<Rightarrow> 'a \<Rightarrow> int) \<Rightarrow> 'a \<Rightarrow> 'a list \<Rightarrow> 'a list" where
  "insertBy cmp a [] = [a]"
| "insertBy cmp a (b # bs) = (if cmp a b \<le> 0 then a # b # bs else b # insertBy cmp a bs)"

definition sortBy :: "('a \<Rightarrow> 'a \<Rightarrow> int) \<Rightarrow> 'a list \<Rightarrow> 'a list" where
  "sortBy cmp xs = foldr (insertBy cmp) xs []"

definition getNodesBySize :: "rnode list \<Rightarrow> rnode list" where
  "getNodesBySize nodes = rev (sortBy compareNodes nodes)"

text \<open>
  The canvas is drawn by external primitives. Of a node they give: whether its
  label has a path and a bounding box that is a positive number
  (\<open>boxValid\<close>), the pixels of the collision bitmap that the label's capsule covers
  (\<open>labelPixels\<close>), and those that the disc of the node covers (\<open>nodePixels\<close>).
\<close>

record canvas =
  boxValid :: "rnode \<Rightarrow> bool"
  labelPixels :: "rnode \<Rightarrow> nat list"
  nodePixels :: "rnode \<Rightarrow> nat list"

text \<open>\<^verbatim>\<open>labelDrawCount\<close> is \<open>None\<close> when it is \<^verbatim>\<open>Infinity\<close>.\<close>

record labelState =
  bitmap :: "nat set"
  labelDrawCount :: "nat option"
  visibleLabels :: "string list"

definition collision :: "canvas \<Rightarrow> nat set \<Rightarrow> rnode \<Rightarrow> bool" where
  "collision cv bm n =
     (if boxValid cv n then \<exists>px \<in> set (labelPixels cv n). px \<in> bm else True)"

definition evaluateLabel :: "canvas \<Rightarrow> rnode \<Rightarrow> labelState \<Rightarrow> labelState" where
  "evaluateLabel cv n st =
     (if (case labelDrawCount st of None \<Rightarrow> True | Some c \<Rightarrow> 0 < c)
      then (if \<not> collision cv (bitmap st) n
            then \<lparr>bitmap = bitmap st \<union> set (labelPixels cv n) \<union> set (nodePixels cv n),
                  labelDrawCount = map_option (\<lambda>c. c - 1) (labelDrawCount st),
                  visibleLabels = visibleLabels st @ [rn_id n]\<rparr>
            else st)
      else st)"

definition getVisibleLabels :: "canvas \<Rightarrow> nat option \<Rightarrow> rnode list \<Rightarrow> string list" where
  "getVisibleLabels cv label_count nodes =
     visibleLabels (fold (evaluateLabel cv) (rev (getNodesBySize nodes))
       \<lparr>bitmap = {}, labelDrawCount = label_count, visibleLabels = []\<rparr>)"

text \<open>The sort key of the comparator: larger sizes first, then larger \<open>x\<close> first.\<close>

definition sizeKey :: "rnode \<Rightarrow> real \<times> real" where
  "sizeKey n = (- rn_size n, - rn_x n)"

subsection \<open>The Voronoi field at one pixel\<close>




subsection \<open>The Voronoi field as specified\<close>







section \<open>Example inputs\<close>





text \<open>
  A node \<open>c\<close> that is new in its slice, with two neighbours that kept the positions
  \<open>(10, 10)\<close> and \<open>(30, 30)\<close> of the previous slice.
\<close>

definition seedingGraph :: "'n graph" where
  "seedingGraph =
     \<lparr>g_nodes =
        [(''a'', \<lparr>node_label = ''A'', node_x = Some 10, node_y = Some 10, node_size = None\<rparr>),
         (''b'', \<lparr>node_label = ''B'', node_x = Some 30, node_y = Some 30, node_size = None\<rparr>),
         (''c'', \<lparr>node_label = ''C'', node_x = None, node_y = None, node_size = None\<rparr>)],
      g_edges =
        [\<lparr>edge_source = ''c'', edge_target = ''a'', edge_undirected = False\<rparr>,
         \<lparr>edge_source = ''b'', edge_target = ''c'', edge_undirected = False\<rparr>]\<rparr>"




text \<open>
  Three nodes of the same size 5: \<open>labelA\<close> and \<open>labelB\<close> at the same \<open>x\<close>, one
  pixel apart; \<open>labelC\<close> further right. On \<open>overlappingCanvas\<close> all labels cover
  the pixels 0 and 1 of the bitmap, so any two of them collide.
\<close>

definition labelA :: rnode where
  "labelA = \<lparr>rn_id = ''a'', rn_label = ''A'', rn_x = 0, rn_y = 0, rn_size = 5, rn_vid = 0\<rparr>"

definition labelB :: rnode where
  "labelB = \<lparr>rn_id = ''b'', rn_label = ''B'', rn_x = 0, rn_y = 1, rn_size = 5, rn_vid = 0\<rparr>"

definition labelC :: rnode where
  "labelC = \<lparr>rn_id = ''c'', rn_label = ''C'', rn_x = 1, rn_y = 0, rn_size = 5, rn_vid = 0\<rparr>"

definition overlappingCanvas :: canvas where
  "overlappingCanvas =
     \<lparr>boxValid = (\<lambda>n. True), labelPixels = (\<lambda>n. [0, 1]), nodePixels = (\<lambda>n. [0])\<rparr>"

section \<open>Properties of the slicer\<close>

subsection \<open>The slice loop\<close>

lemma map_upt_shift:
  "map f [0..<Suc n] = f 0 # map (\<lambda>k. f (Suc k)) [0..<n]"
  by (simp add: map_upt_Suc del: upt_Suc)



text \<open>
  If the loop condition holds at the first \<open>n\<close> strides from \<open>i\<close> and fails at the
  next, and no operation rounds on the way, the loop returns after pushing exactly
  these \<open>n\<close> slices.
\<close>

lemma slicesLoop_run:
  "exactSum dateMax (- wRange) \<Longrightarrow>
   (\<forall>k<n. i + real k * wStep \<le> dateMax - wRange
      \<and> exactSum (i + real k * wStep) wRange \<and> exactSum (i + real k * wStep) wStep) \<Longrightarrow>
   \<not> (i + real n * wStep \<le> dateMax - wRange) \<Longrightarrow>
   slicesLoop i dateMax wRange wStep acc
     = Some (Inr (acc @ map (snapshot i wRange wStep) [0..<n]))"
proof (induction n arbitrary: i acc)
  case 0
  then show ?case by (subst slicesLoop.simps) simp
next
  case (Suc n)
  from Suc.prems(2) have "i + real 0 * wStep \<le> dateMax - wRange
      \<and> exactSum (i + real 0 * wStep) wRange \<and> exactSum (i + real 0 * wStep) wStep"
    by blast
  then have here: "i \<le> dateMax - wRange" "exactSum i wRange" "exactSum i wStep"
    by simp_all
  have later: "\<forall>k<n. (i + wStep) + real k * wStep \<le> dateMax - wRange
      \<and> exactSum ((i + wStep) + real k * wStep) wRange
      \<and> exactSum ((i + wStep) + real k * wStep) wStep"
  proof (intro allI impI)
    fix k assume "k < n"
    then have "Suc k < Suc n" by simp
    with Suc.prems(2) have *: "i + real (Suc k) * wStep \<le> dateMax - wRange
        \<and> exactSum (i + real (Suc k) * wStep) wRange
        \<and> exactSum (i + real (Suc k) * wStep) wStep"
      by blast
    have eq: "(i + wStep) + real k * wStep = i + real (Suc k) * wStep"
      by (simp add: algebra_simps)
    show "(i + wStep) + real k * wStep \<le> dateMax - wRange
        \<and> exactSum ((i + wStep) + real k * wStep) wRange
        \<and> exactSum ((i + wStep) + real k * wStep) wStep"
      unfolding eq by (rule *)
  qed
  have stop: "\<not> ((i + wStep) + real n * wStep \<le> dateMax - wRange)"
    using Suc.prems(3) by (simp add: algebra_simps)
  have shift: "map (snapshot (i + wStep) wRange wStep) [0..<n]
      = map (\<lambda>k. snapshot i wRange wStep (Suc k)) [0..<n]"
    by (simp add: snapshot_def algebra_simps)
  have "slicesLoop i dateMax wRange wStep acc
      = slicesLoop (i + wStep) dateMax wRange wStep (acc @ [emptySlice i wRange])"
    using here Suc.prems(1) by (subst slicesLoop.simps) simp
  also have "\<dots> = Some (Inr ((acc @ [emptySlice i wRange])
      @ map (snapshot (i + wStep) wRange wStep) [0..<n]))"
    by (rule Suc.IH [OF Suc.prems(1) later stop])
  also have "\<dots> = Some (Inr (acc @ map (snapshot i wRange wStep) [0..<Suc n]))"
    unfolding map_upt_shift shift by (simp add: snapshot_def)
  finally show ?case .
qed





subsection \<open>The date envelope\<close>





subsection \<open>Slice generation\<close>




text \<open>
  Claim C3, evaluated on the source: with \<^verbatim>\<open>--range 10 --step 5\<close> the stride the
  slicer uses is 10, the value of the range option, and the snapshots over the
  envelope \<open>[0, 30]\<close> start at 0, 10 and 20.
\<close>

theorem windowStep_mirrors_range:
  "windowStep \<lparr>opt_range = Some 10, opt_step = Some 5\<rparr> TFInteger = 10
   \<and> buildSlices \<lparr>opt_range = Some 10, opt_step = Some 5\<rparr> TFInteger (Some (0, 30))
       = Some (Inr [emptySlice 0 10, emptySlice 10 10, emptySlice 20 10])"
proof -
  have w: "windowStep \<lparr>opt_range = Some 10, opt_step = Some 5\<rparr> TFInteger = 10"
    and r: "windowRange \<lparr>opt_range = Some 10, opt_step = Some 5\<rparr> TFInteger = 10"
    and e: "windowsExact \<lparr>opt_range = Some 10, opt_step = Some 5\<rparr> TFInteger"
    by (simp_all add: windowStep_def windowRange_def windowUnitRatio_def windowsExact_def
        exactProduct_def)
  have "slicesLoop 0 30 10 10 [] = Some (Inr ([] @ map (snapshot 0 10 10) [0..<3]))"
    by (rule slicesLoop_run)
      (simp_all add: less_Suc_eq numeral_3_eq_3 exactSum_def integer53_def)
  then have "slicesLoop 0 30 10 10 []
      = Some (Inr [emptySlice 0 10, emptySlice 10 10, emptySlice 20 10])"
    by (simp add: snapshot_def numeral_3_eq_3)
  with w r e show ?thesis by (simp add: buildSlices_def)
qed




subsection \<open>Membership\<close>

lemma overlapDomnodeSlice_interval:
  "truthy (overlapDomnodeSlice Interval d sl) \<longleftrightarrow> hasInterval d \<and> intervalOverlaps d sl"
  by (simp add: truthy_def overlapDomnodeSlice_def hasInterval_def intervalOverlaps_def)

lemma checkSpells_interval:
  "truthy (checkSpells Interval sps sl)
     \<longleftrightarrow> (\<exists>sp \<in> set sps. hasInterval sp \<and> intervalOverlaps sp sl)"
proof (induction sps)
  case Nil
  show ?case by (simp add: truthy_def)
next
  case (Cons sp sps)
  show ?case
  proof (cases "truthy (overlapDomnodeSlice Interval sp sl)")
    case True
    then show ?thesis
      using overlapDomnodeSlice_interval [of sp sl] by (simp add: truthy_def)
  next
    case False
    then show ?thesis
      using Cons.IH overlapDomnodeSlice_interval [of sp sl] by auto
  qed
qed

text \<open>
  Claim C1 as stated fails: a node whose own interval \<open>[0, 1]\<close> misses the slice
  \<open>[5, 6]\<close> is not active there, although its spell \<open>[5, 6]\<close> overlaps the slice.
\<close>

theorem node_active_counterexample:
  "\<not> (truthy (checkNodeSlice Interval
          \<lparr>attr_start = Some 0, attr_end = Some 1, attr_timestamp = None,
           attr_id = ''n0'', attr_label = ''n0'',
           spells = [\<lparr>attr_start = Some 5, attr_end = Some 6, attr_timestamp = None\<rparr>]\<rparr>
          (emptySlice 5 1))
      \<longleftrightarrow> activeSpec
          \<lparr>attr_start = Some 0, attr_end = Some 1, attr_timestamp = None,
           attr_id = ''n0'', attr_label = ''n0'',
           spells = [\<lparr>attr_start = Some 5, attr_end = Some 6, attr_timestamp = None\<rparr>]\<rparr>
          (emptySlice 5 1))"
  by (simp add: checkNodeSlice_def overlapDomnodeSlice_def truthy_def activeSpec_def
      hasInterval_def intervalOverlaps_def emptySlice_def)

text \<open>
  Claim C1, amended. Under the interval representation a node that carries a start
  or an end of its own is active in a slice exactly when that interval overlaps the
  slice, and its spells are not consulted; a node with neither is active exactly
  when one of its spells carries a start or an end and overlaps the slice. A missing
  start counts as \<open>-\<infinity>\<close>, a missing end as \<open>+\<infinity>\<close>, and overlap is
  \<open>\<not> (endDate < S.start \<or> S.end < startDate)\<close>. A node with no interval and no
  spells is active in no slice.
\<close>

theorem node_active_interval:
  "(truthy (checkNodeSlice Interval n sl) \<longleftrightarrow>
      (if hasInterval n then intervalOverlaps n sl
       else \<exists>sp \<in> set (spells n). hasInterval sp \<and> intervalOverlaps sp sl))
   \<and> (\<not> hasInterval n \<and> spells n = [] \<longrightarrow> \<not> truthy (checkNodeSlice Interval n sl))"
proof -
  have "truthy (checkNodeSlice Interval n sl) \<longleftrightarrow>
      (if hasInterval n then intervalOverlaps n sl
       else \<exists>sp \<in> set (spells n). hasInterval sp \<and> intervalOverlaps sp sl)"
    using overlapDomnodeSlice_interval [of n sl] checkSpells_interval [of "spells n" sl]
    by (simp add: checkNodeSlice_def hasInterval_def)
  then show ?thesis by simp
qed

theorem node_active_interval_witness:
  "truthy (checkNodeSlice Interval
      \<lparr>attr_start = None, attr_end = None, attr_timestamp = None,
       attr_id = ''n1'', attr_label = ''n1'',
       spells = [\<lparr>attr_start = Some 0, attr_end = Some 1, attr_timestamp = None\<rparr>,
                 \<lparr>attr_start = Some 5, attr_end = None, attr_timestamp = None\<rparr>]\<rparr>
      (emptySlice 6 1))
   \<and> \<not> truthy (checkNodeSlice Interval
      \<lparr>attr_start = None, attr_end = None, attr_timestamp = None,
       attr_id = ''n2'', attr_label = ''n2'', spells = []\<rparr>
      (emptySlice 6 1))"
  using node_active_interval
      [of "\<lparr>attr_start = None, attr_end = None, attr_timestamp = None,
           attr_id = ''n1'', attr_label = ''n1'',
           spells = [\<lparr>attr_start = Some 0, attr_end = Some 1, attr_timestamp = None\<rparr>,
                     \<lparr>attr_start = Some 5, attr_end = None, attr_timestamp = None\<rparr>]\<rparr>"
          "emptySlice 6 1"]
    node_active_interval
      [of "\<lparr>attr_start = None, attr_end = None, attr_timestamp = None,
           attr_id = ''n2'', attr_label = ''n2'', spells = []\<rparr>"
          "emptySlice 6 1"]
  by (simp add: hasInterval_def intervalOverlaps_def emptySlice_def)

section \<open>Properties of the temporal layout\<close>

subsection \<open>Sampling one slice\<close>

lemma sample_at_length:
  "\<not> sampleOutOfRange (int (length slices)) slices
   \<and> sampledSlice (int (length slices)) slices = None"
  by (simp add: sampleOutOfRange_def sampledSlice_def)

text \<open>
  Claim C10, evaluated on the source: on a file of one slice the sample option 1
  passes the range check, and the slice read at index 1 is undefined.
\<close>

theorem sample_check_off_by_one:
  "\<not> sampleOutOfRange 1 [emptySlice 0 1] \<and> sampledSlice 1 [emptySlice 0 1] = None"
  by (simp add: sampleOutOfRange_def sampledSlice_def)

subsection \<open>Node sizes\<close>




subsection \<open>Initial positions\<close>

text \<open>
  Claim C4, evaluated on the source: a new node with two positioned neighbours at
  \<open>(10, 10)\<close> and \<open>(30, 30)\<close> is placed at \<open>(40, 40)\<close>, the sum of their
  positions. Their mean is \<open>(20, 20)\<close>. The sums are never divided by the count.
\<close>

theorem new_node_gets_sum_of_neighbors:
  "map (\<lambda>(nid, n). (nid, node_x n, node_y n)) (g_nodes (initialPositions seedingGraph rnd))
     = [(''a'', Some 10, Some 10), (''b'', Some 30, Some 30), (''c'', Some 40, Some 40)]
   \<and> fold (addNeighbor seedingGraph) (neighbors seedingGraph ''c'') (0, 0, 0) = (40, 40, 2)"
  by (simp add: initialPositions_def nodesIndexOf_def indexNode_def newPosition_def
      addNeighbor_def neighbors_def getNodeAttributes_def truthyNum_def seedingGraph_def
      order_def)

section \<open>Properties of the rasterizer\<close>

subsection \<open>Hillshading\<close>

lemma int_div_less:
  assumes "0 < (w::int)" "i < h * w"
  shows "i div w < h"
proof (rule ccontr)
  assume "\<not> i div w < h"
  then have "h \<le> i div w" by simp
  then have "h * w \<le> (i div w) * w" using assms(1) by (simp add: mult_right_mono)
  also have "\<dots> = i - i mod w" by (simp add: minus_mod_eq_div_mult)
  also have "\<dots> \<le> i" using pos_mod_sign [OF assms(1), of i] by simp
  finally show False using assms(2) by simp
qed

text \<open>The left, right and top neighbours of a pixel of the grid are in the grid.\<close>

lemma i_left_inBounds:
  "0 \<le> width \<Longrightarrow> 0 \<le> height \<Longrightarrow> inBounds width height i
    \<Longrightarrow> inBounds width height (i_left width i)"
  unfolding inBounds_def i_left_def
  by (auto simp: order_less_le)

lemma i_top_inBounds:
  "0 \<le> width \<Longrightarrow> 0 \<le> height \<Longrightarrow> inBounds width height i
    \<Longrightarrow> inBounds width height (i_top width i)"
  unfolding inBounds_def i_top_def
  by auto

lemma i_right_inBounds:
  assumes "0 \<le> width" "0 \<le> height" "inBounds width height i"
  shows "inBounds width height (i_right width i)"
proof (cases "i mod (width + 1) = (width + 1) - 1")
  case True
  then show ?thesis using assms by (simp add: i_right_def)
next
  case False
  have w: "0 < width + 1" using assms by simp
  have "i mod (width + 1) < width + 1" using w by (rule pos_mod_bound)
  with False have m: "i mod (width + 1) + 1 < width + 1" by simp
  have "i div (width + 1) < height + 1"
    using assms(3) w unfolding inBounds_def
    by (intro int_div_less) (simp_all add: mult.commute)
  then have "i div (width + 1) + 1 \<le> height + 1" by simp
  then have "(width + 1) * (i div (width + 1) + 1) \<le> (width + 1) * (height + 1)"
    using w by (simp add: mult_left_mono)
  moreover have "i + 1 = (width + 1) * (i div (width + 1)) + (i mod (width + 1) + 1)"
    by simp
  ultimately have "i + 1 < (width + 1) * (height + 1)"
    using m by (simp add: algebra_simps)
  then show ?thesis using False assms by (simp add: i_right_def inBounds_def)
qed

text \<open>
  The bottom neighbour is in the grid for every pixel but one: the first pixel of
  the last row, where the test \<^verbatim>\<open>i > (width+1) * ((height+1) - 1)\<close> is false and the
  index \<open>i + (width + 1)\<close> is the length of the array.
\<close>

lemma i_bottom_inBounds:
  assumes "0 \<le> width" "0 \<le> height" "inBounds width height i" "i \<noteq> (width + 1) * height"
  shows "inBounds width height (i_bottom width height i)"
  using assms unfolding inBounds_def i_bottom_def
  by (auto simp: algebra_simps)

lemma i_bottom_last_row_start:
  assumes "0 \<le> width" "0 \<le> height"
  shows "inBounds width height ((width + 1) * height)
    \<and> i_bottom width height ((width + 1) * height) = (width + 1) * (height + 1)"
  using assms unfolding inBounds_def i_bottom_def
  by (auto simp: algebra_simps)

text \<open>
  Claim C7, evaluated on the source: on a heat map of width 1 and height 1 (four
  pixels) the pixel of index 2, the first of the last row, has the bottom index 4,
  outside the array; the value read there is undefined and \<open>dy\<close> is not a number.
\<close>

theorem hillshading_bottom_out_of_bounds:
  "inBounds 1 1 2 \<and> i_bottom 1 1 2 = 4 \<and> \<not> inBounds 1 1 (i_bottom 1 1 2)
   \<and> arrayGet [1, 2, 3, 4] (i_bottom 1 1 2) = None
   \<and> hillshading_dy [1, 2, 3, 4] 1 1 2 = None"
  by (simp add: inBounds_def i_bottom_def i_top_def arrayGet_def hillshading_dy_def minus_js_def)

subsection \<open>Voronoi field\<close>



lemma paintPixel_length:
  "length (vidPixelMap (paintPixel p bits n x y vd)) = length (vidPixelMap vd)
   \<and> length (dPixelMap (paintPixel p bits n x y vd)) = length (dPixelMap vd)"
  by (simp add: paintPixel_def Let_def)



lemma fold_paintPixel_length:
  "length (vidPixelMap (fold (\<lambda>y. paintPixel p bits n x y) ys vd)) = length (vidPixelMap vd)
   \<and> length (dPixelMap (fold (\<lambda>y. paintPixel p bits n x y) ys vd)) = length (dPixelMap vd)"
  by (induction ys arbitrary: vd) (simp_all add: paintPixel_length)

lemma paintNode_length:
  "length (vidPixelMap (paintNode p bits n vd)) = length (vidPixelMap vd)
   \<and> length (dPixelMap (paintNode p bits n vd)) = length (dPixelMap vd)"
proof -
  have "length (vidPixelMap (fold (\<lambda>x. fold (\<lambda>y. paintPixel p bits n x y) ys) xs vd))
        = length (vidPixelMap vd)
      \<and> length (dPixelMap (fold (\<lambda>x. fold (\<lambda>y. paintPixel p bits n x y) ys) xs vd))
        = length (dPixelMap vd)" for xs ys
    by (induction xs arbitrary: vd) (simp_all add: fold_paintPixel_length)
  then show ?thesis by (simp add: paintNode_def)
qed









lemma fold_paintNode_length:
  "length (vidPixelMap (fold (paintNode p bits) ns vd)) = length (vidPixelMap vd)
   \<and> length (dPixelMap (fold (paintNode p bits) ns vd)) = length (dPixelMap vd)"
  by (induction ns arbitrary: vd) (simp_all add: paintNode_length)
























subsection \<open>Label selection\<close>

lemma insertBy_insort: "insertBy compareNodes a bs = insort_key sizeKey a bs"
  by (induction bs) (auto simp: compareNodes_def sizeKey_def less_eq_prod_def)

lemma sortBy_sort_key: "sortBy compareNodes xs = sort_key sizeKey xs"
  unfolding sortBy_def sort_key_def
  by (induction xs) (simp_all add: insertBy_insort)

lemma sortBy_permutation:
  assumes "mset xs = mset ys" and "inj_on sizeKey (set xs)"
  shows "sortBy compareNodes xs = sortBy compareNodes ys"
  unfolding sortBy_sort_key using assms by (rule sort_key_eq_sort_key)

text \<open>
  Claim C8 as stated fails: two nodes of the same size and the same \<open>x\<close> compare
  equal, the stable sort keeps their input order, and of two colliding labels the
  first in the input is the one kept.
\<close>

theorem visible_labels_counterexample:
  "set (getVisibleLabels overlappingCanvas (Some 80) [labelA, labelB])
     \<noteq> set (getVisibleLabels overlappingCanvas (Some 80) [labelB, labelA])"
proof -
  have "getVisibleLabels overlappingCanvas (Some 80) [labelA, labelB] = [''a'']"
    by (auto simp: getVisibleLabels_def getNodesBySize_def sortBy_def compareNodes_def
        evaluateLabel_def collision_def labelA_def labelB_def overlappingCanvas_def)
  moreover have "getVisibleLabels overlappingCanvas (Some 80) [labelB, labelA] = [''b'']"
    by (auto simp: getVisibleLabels_def getNodesBySize_def sortBy_def compareNodes_def
        evaluateLabel_def collision_def labelA_def labelB_def overlappingCanvas_def)
  ultimately show ?thesis by simp
qed

text \<open>
  Claim C8, amended. Two runs of label selection on the same nodes and settings
  that differ only in the input order of the nodes give the same visible labels,
  provided no two nodes have both the same size and the same \<open>x\<close>: the order of
  evaluation is then fixed by size and, among equal sizes, by \<open>x\<close>.
\<close>

theorem visible_labels_order_independent:
  assumes "mset xs = mset ys"
    and "\<forall>a \<in> set xs. \<forall>b \<in> set xs. rn_size a = rn_size b \<and> rn_x a = rn_x b \<longrightarrow> a = b"
  shows "getVisibleLabels cv label_count xs = getVisibleLabels cv label_count ys"
proof -
  have "inj_on sizeKey (set xs)"
    using assms(2) by (auto simp: inj_on_def sizeKey_def)
  with assms(1) have "sortBy compareNodes xs = sortBy compareNodes ys"
    by (rule sortBy_permutation)
  then show ?thesis by (simp add: getVisibleLabels_def getNodesBySize_def)
qed

theorem visible_labels_order_independent_witness:
  "mset [labelA, labelC] = mset [labelC, labelA]
   \<and> getVisibleLabels overlappingCanvas (Some 80) [labelA, labelC]
       = getVisibleLabels overlappingCanvas (Some 80) [labelC, labelA]"
proof -
  have p: "mset [labelA, labelC] = mset [labelC, labelA]" by simp
  have k: "\<forall>a \<in> set [labelA, labelC]. \<forall>b \<in> set [labelA, labelC].
        rn_size a = rn_size b \<and> rn_x a = rn_x b \<longrightarrow> a = b"
    by (simp add: labelA_def labelC_def)
  from visible_labels_order_independent [OF p k, of overlappingCanvas "Some 80"] p
  show ?thesis by blast
qed

end
